theory Spec2Isabelle
  imports Main "HOL-Library.Word"
begin

section \<open>The node configuration of op-node (op-node/node/config.go)\<close>

text \<open>
  The theory embeds the configuration aggregate \<open>Config\<close> of the rollup node with its two
  operations, \<open>LoadPersisted\<close> (reconciliation with the persisted sequencer state) and
  \<open>Check\<close> (the invariant gate), together with \<open>MetricsConfig.Check\<close>,
  \<open>ReadDACConfigFromCLI\<close> and \<open>DACConfig.Client\<close>.

  Both operations have a pointer receiver and talk to collaborators, so they are state
  transformers: they take the configuration and the world outside it and return what the
  call did (a panic, or the returned \<open>error\<close>, \<open>nil\<close> being \<open>None\<close>), the
  configuration after the call and the world after the call.
\<close>

subsection \<open>Errors\<close>

text \<open>
  A Go \<open>error\<close> built in this file is either \<open>errors.New(msg)\<close> or
  \<open>fmt.Errorf(format, args...)\<close>. The format string and its operands are kept apart, as
  the call has them: \<open>W\<close> is an error operand (verb \<open>%w\<close>, the wrapped error that
  \<open>errors.Unwrap\<close> gives back), \<open>D\<close> a \<open>uint64\<close> operand (verb \<open>%d\<close>), \<open>Q\<close> a string
  operand (verb \<open>%q\<close>).
\<close>

datatype error = New string | Errorf string "operand list"
and operand = W error | D "64 word" | Q string

text \<open>What a call does: it panics (a nil interface is dereferenced) or it returns.\<close>

datatype 'a outcome = Panic | Returns 'a

subsection \<open>The collaborators\<close>

text \<open>
  The endpoint setups, the peer-network setup, the profiling and alt-DA settings and the
  rollup configuration are declared in other packages. Of each, the model keeps what
  \<open>config.go\<close> reads: the fields it reads, and the result of every method it calls (the
  method itself is not in this file, so its result is a parameter of the model).
\<close>

record L1EndpointSetup =
  L1EndpointSetup_Check :: "error option"

record L2EndpointSetup =
  L2EndpointSetup_Check :: "error option"

record L1BeaconEndpointSetup =
  L1BeaconEndpointSetup_Check :: "error option"

record SupervisorEndpointSetup =
  SupervisorEndpointSetup_Check :: "error option"

record SetupP2P =
  SetupP2P_Check :: "error option"
  SetupP2P_Disabled :: bool

record oppprof_CLIConfig =
  oppprof_Check :: "error option"

record altda_CLIConfig =
  altda_Enabled :: bool
  altda_Check :: "error option"

record rollup_Config =
  EcotoneTime :: "64 word option"
  InteropTime :: "64 word option"
  rollup_Check :: "error option"
  IsL2BlobTimeSet :: bool

record driver_Config =
  SequencerEnabled :: bool
  SequencerStopped :: bool

text \<open>
  Modelled from the spec: the type \<open>RunningState\<close> and its constants are declared outside
  \<open>config.go\<close>; the store reports one of unset, started, stopped.
\<close>

datatype RunningState = StateUnset | StateStarted | StateStopped

text \<open>
  The persisted-state store is an interface whose one method used here,
  \<open>SequencerState()\<close>, returns a state and an error. What it answers is outside the
  configuration and may change between reads, so the store is the function from the
  number of reads made so far to the answer of the next read.
\<close>

record ConfigPersistence =
  SequencerState :: "nat \<Rightarrow> RunningState \<times> error option"

subsection \<open>The world outside the configuration\<close>

text \<open>
  Outside the configuration are the store, of which the world counts the reads, and the
  log. \<open>LoadPersisted\<close> writes to the logger it is given and \<open>Check\<close> to the logger
  of the package \<open>log\<close>; the world keeps one list of the records written, in order.
\<close>

datatype Level = LvlInfo | LvlWarn

datatype LogRecord = LogRecord Level string "(string \<times> bool) list"

record World =
  reads :: nat
  logged :: "LogRecord list"

definition log_Warn :: "string \<Rightarrow> (string \<times> bool) list \<Rightarrow> World \<Rightarrow> World" where
  "log_Warn msg ctx w = w\<lparr>logged := logged w @ [LogRecord LvlWarn msg ctx]\<rparr>"

definition log_Info :: "string \<Rightarrow> (string \<times> bool) list \<Rightarrow> World \<Rightarrow> World" where
  "log_Info msg ctx w = w\<lparr>logged := logged w @ [LogRecord LvlInfo msg ctx]\<rparr>"

text \<open>One read of the store: the answer of read number \<open>reads w\<close>, and one read more made.\<close>

definition read_SequencerState ::
  "ConfigPersistence \<Rightarrow> World \<Rightarrow> (RunningState \<times> error option) \<times> World" where
  "read_SequencerState p w = (SequencerState p (reads w), w\<lparr>reads := Suc (reads w)\<rparr>)"

subsection \<open>The sub-configurations declared in config.go\<close>

record DACConfig =
  URLS :: "string list"

record RPCConfig =
  RPC_ListenAddr :: string
  RPC_ListenPort :: int
  RPC_EnableAdmin :: bool

record MetricsConfig =
  Metrics_Enabled :: bool
  Metrics_ListenAddr :: string
  Metrics_ListenPort :: int

text \<open>\<open>math.MaxUint16\<close>.\<close>

definition MaxUint16 :: int where
  "MaxUint16 = 65535"

definition MetricsConfig_Check :: "MetricsConfig \<Rightarrow> error option" where
  "MetricsConfig_Check m =
     (if \<not> Metrics_Enabled m then None
      else if Metrics_ListenPort m < 0 \<or> Metrics_ListenPort m > MaxUint16
        then Some (New ''invalid metrics port'')
      else None)"

subsection \<open>The aggregate\<close>

text \<open>
  Interface-typed fields may be nil and are options. The fields \<open>P2PSigner\<close>,
  \<open>Tracer\<close>, \<open>Sync\<close>, \<open>Cancel\<close> and \<open>ConductorRpc\<close> have types declared in other
  packages and are neither read nor written by the operations below; they are left out.
  \<open>time.Duration\<close> and the ports are integers on which no arithmetic is done.
\<close>

record Config =
  L1 :: "L1EndpointSetup option"
  L2 :: "L2EndpointSetup option"
  Beacon :: "L1BeaconEndpointSetup option"
  Supervisor :: "SupervisorEndpointSetup option"
  Driver :: driver_Config
  Rollup :: rollup_Config
  RPC :: RPCConfig
  P2P :: "SetupP2P option"
  Metrics :: MetricsConfig
  Pprof :: oppprof_CLIConfig
  L1EpochPollInterval :: int
  ConfigPersistence :: "ConfigPersistence option"
  SafeDBPath :: string
  RuntimeConfigReloadInterval :: int
  RollupHalt :: string
  ConductorEnabled :: bool
  ConductorRpcTimeout :: int
  AltDA :: altda_CLIConfig
  DACConfig :: "DACConfig option"

subsection \<open>ReadDACConfigFromCLI and DACConfig.Client\<close>

text \<open>
  \<open>strings.Split(s, sep)\<close> for a separator of one character: the pieces of \<open>s\<close>
  between the occurrences of the separator, one piece more than there are occurrences.
\<close>

fun strings_Split :: "string \<Rightarrow> char \<Rightarrow> string list" where
  "strings_Split [] sep = [[]]"
| "strings_Split (c # cs) sep =
     (if c = sep then [] # strings_Split cs sep
      else (case strings_Split cs sep of
              [] \<Rightarrow> [[c]]
            | p # ps \<Rightarrow> (c # p) # ps))"

text \<open>The argument is the value of the flag \<open>dac.urls\<close>, \<open>c.String(flags.DACUrlsFlag.Name)\<close>.\<close>

definition ReadDACConfigFromCLI :: "string \<Rightarrow> DACConfig option" where
  "ReadDACConfigFromCLI urls =
     (if urls = [] then None
      else Some \<lparr>URLS = strings_Split urls (CHR '','')\<rparr>)"

text \<open>The client made by \<open>client.New\<close> holds the URLs it was given.\<close>

datatype DACClient = client_New "string list"

definition Client :: "DACConfig option \<Rightarrow> DACClient option" where
  "Client dacConfig =
     (case dacConfig of
        None \<Rightarrow> None
      | Some d \<Rightarrow> if length (URLS d) = 0 then None else Some (client_New (URLS d)))"

subsection \<open>LoadPersisted\<close>

text \<open>
  The first argument is \<open>flags.SequencerStoppedFlag.Name\<close>, a constant of another
  package that only the text of the advisory notice depends on.
\<close>

definition LoadPersisted ::
  "string \<Rightarrow> Config \<Rightarrow> World \<Rightarrow> error option outcome \<times> Config \<times> World" where
  "LoadPersisted flagName cfg w =
     (if \<not> SequencerEnabled (Driver cfg) then (Returns None, cfg, w)
      else case ConfigPersistence cfg of
        None \<Rightarrow> (Panic, cfg, w)
      | Some p \<Rightarrow>
         (case read_SequencerState p w of
            ((state, Some err), w1) \<Rightarrow> (Returns (Some err), cfg, w1)
          | ((state, None), w1) \<Rightarrow>
              if state \<noteq> StateUnset then
                (let stopped = (state = StateStopped);
                     w2 = (if stopped \<noteq> SequencerStopped (Driver cfg)
                           then log_Warn (''Overriding '' @ flagName @ '' with persisted state'')
                                  [(''stopped'', stopped)] w1
                           else w1)
                 in (Returns None,
                     cfg\<lparr>Driver := (Driver cfg)\<lparr>SequencerStopped := stopped\<rparr>\<rparr>, w2))
              else (Returns None, cfg, log_Info ''No persisted sequencer state loaded'' [] w1)))"

subsection \<open>The errors and notices of Check\<close>

text \<open>
  Each \<open>return fmt.Errorf(...)\<close> of \<open>Check\<close> is named after the check it belongs to
  and copied from its line of \<open>config.go\<close>, so that the text of a message is written
  once.
\<close>

text \<open>Line 159.\<close>

definition L1_error :: "error \<Rightarrow> error" where
  "L1_error err =
     Errorf ''l2 endpoint config error: %w'' [W err]"

text \<open>Line 162.\<close>

definition L2_error :: "error \<Rightarrow> error" where
  "L2_error err =
     Errorf ''l2 endpoint config error: %w'' [W err]"

text \<open>Line 166.\<close>

definition Beacon_missing_error :: "64 word \<Rightarrow> error" where
  "Beacon_missing_error t =
     Errorf ''the Ecotone upgrade is scheduled (timestamp = %d) but no L1 Beacon API endpoint is configured'' [D t]"

text \<open>Line 169.\<close>

definition Beacon_error :: "error \<Rightarrow> error" where
  "Beacon_error err =
     Errorf ''misconfigured L1 Beacon API endpoint: %w'' [W err]"

text \<open>Line 174.\<close>

definition Supervisor_missing_error :: "64 word \<Rightarrow> error" where
  "Supervisor_missing_error t =
     Errorf ''the Interop upgrade is scheduled (timestamp = %d) but no supervisor RPC endpoint is configured'' [D t]"

text \<open>Line 177.\<close>

definition Supervisor_error :: "error \<Rightarrow> error" where
  "Supervisor_error err =
     Errorf ''misconfigured supervisor RPC endpoint: %w'' [W err]"

text \<open>Line 181.\<close>

definition Rollup_error :: "error \<Rightarrow> error" where
  "Rollup_error err =
     Errorf ''rollup config error: %w'' [W err]"

text \<open>Line 184.\<close>

definition Metrics_error :: "error \<Rightarrow> error" where
  "Metrics_error err =
     Errorf ''metrics config error: %w'' [W err]"

text \<open>Line 187.\<close>

definition Pprof_error :: "error \<Rightarrow> error" where
  "Pprof_error err =
     Errorf ''pprof config error: %w'' [W err]"

text \<open>Line 191.\<close>

definition P2P_error :: "error \<Rightarrow> error" where
  "P2P_error err =
     Errorf ''p2p config error: %w'' [W err]"

text \<open>Line 195.\<close>

definition RollupHalt_error :: "string \<Rightarrow> error" where
  "RollupHalt_error halt =
     Errorf ''invalid rollup halting option: %q'' [Q halt]"

text \<open>Line 199.\<close>

definition Persistence_error :: "error" where
  "Persistence_error =
     Errorf ''config persistence must be disabled when conductor is enabled'' []"

text \<open>Line 202.\<close>

definition Sequencer_error :: "error" where
  "Sequencer_error =
     Errorf ''sequencer must be enabled when conductor is enabled'' []"

text \<open>Line 206.\<close>

definition AltDA_error :: "error \<Rightarrow> error" where
  "AltDA_error err =
     Errorf ''altDA config error: %w'' [W err]"

text \<open>Line 212.\<close>

definition DAC_missing_error :: "error" where
  "DAC_missing_error =
     Errorf ''dac.urls must be set for sequencer when l2 blob time is set'' []"

text \<open>Line 215.\<close>

definition DAC_unexpected_error :: "error" where
  "DAC_unexpected_error =
     Errorf ''dac.urls can only be set for sequencer when l2 blob time is set'' []"

text \<open>Line 209, the text of the warning.\<close>

definition AltDA_warning :: string where
  "AltDA_warning =
     ''Alt-DA Mode is a Beta feature of the MIT licensed OP Stack.  While it has received initial review from core contributors, it is still undergoing testing, and may have bugs or other issues.''"

subsection \<open>Check\<close>

text \<open>
  The gate is one function in the source. The model keeps its order and cuts it at the
  blocks of the source: the two upgrade-gated endpoint blocks (lines 164-171 and 172-179),
  the conductor block (lines 197-204), the tail from the alt-DA check on (lines 205-217),
  and the whole.
\<close>

definition Check_Beacon :: "Config \<Rightarrow> error option" where
  "Check_Beacon cfg =
     (case EcotoneTime (Rollup cfg) of
        None \<Rightarrow> None
      | Some t \<Rightarrow>
         (case Beacon cfg of
            None \<Rightarrow> Some (Beacon_missing_error t)
          | Some b \<Rightarrow>
             (case L1BeaconEndpointSetup_Check b of
                Some err \<Rightarrow> Some (Beacon_error err)
              | None \<Rightarrow> None)))"

definition Check_Supervisor :: "Config \<Rightarrow> error option" where
  "Check_Supervisor cfg =
     (case InteropTime (Rollup cfg) of
        None \<Rightarrow> None
      | Some t \<Rightarrow>
         (case Supervisor cfg of
            None \<Rightarrow> Some (Supervisor_missing_error t)
          | Some s \<Rightarrow>
             (case SupervisorEndpointSetup_Check s of
                Some err \<Rightarrow> Some (Supervisor_error err)
              | None \<Rightarrow> None)))"

definition Check_Conductor :: "Config \<Rightarrow> World \<Rightarrow> error option outcome \<times> World" where
  "Check_Conductor cfg w =
     (if ConductorEnabled cfg then
        (case ConfigPersistence cfg of
           None \<Rightarrow> (Panic, w)
         | Some p \<Rightarrow>
            (let r = read_SequencerState p w; state = fst (fst r); w1 = snd r
             in if state \<noteq> StateUnset
                then (Returns (Some Persistence_error), w1)
                else if \<not> SequencerEnabled (Driver cfg)
                then (Returns (Some Sequencer_error), w1)
                else (Returns None, w1)))
      else (Returns None, w))"

definition Check_AltDA_DAC :: "Config \<Rightarrow> World \<Rightarrow> error option outcome \<times> Config \<times> World" where
  "Check_AltDA_DAC cfg w =
     (case altda_Check (AltDA cfg) of
        Some err \<Rightarrow> (Returns (Some (AltDA_error err)), cfg, w)
      | None \<Rightarrow>
         (let w1 = (if altda_Enabled (AltDA cfg)
                    then log_Warn AltDA_warning [] w
                    else w)
          in if SequencerEnabled (Driver cfg) \<and> IsL2BlobTimeSet (Rollup cfg) \<and> DACConfig cfg = None
             then (Returns (Some DAC_missing_error), cfg, w1)
             else if (\<not> SequencerEnabled (Driver cfg) \<or> \<not> IsL2BlobTimeSet (Rollup cfg)) \<and> DACConfig cfg \<noteq> None
             then (Returns (Some DAC_unexpected_error), cfg, w1)
             else (Returns None, cfg, w1)))"

definition Check :: "Config \<Rightarrow> World \<Rightarrow> error option outcome \<times> Config \<times> World" where
  "Check cfg w =
    (case L1 cfg of None \<Rightarrow> (Panic, cfg, w) | Some l1 \<Rightarrow>
    (case L1EndpointSetup_Check l1 of
       Some err \<Rightarrow> (Returns (Some (L1_error err)), cfg, w)
     | None \<Rightarrow>
    (case L2 cfg of None \<Rightarrow> (Panic, cfg, w) | Some l2 \<Rightarrow>
    (case L2EndpointSetup_Check l2 of
       Some err \<Rightarrow> (Returns (Some (L2_error err)), cfg, w)
     | None \<Rightarrow>
    (case Check_Beacon cfg of
       Some e \<Rightarrow> (Returns (Some e), cfg, w)
     | None \<Rightarrow>
    (case Check_Supervisor cfg of
       Some e \<Rightarrow> (Returns (Some e), cfg, w)
     | None \<Rightarrow>
    (case rollup_Check (Rollup cfg) of
       Some err \<Rightarrow> (Returns (Some (Rollup_error err)), cfg, w)
     | None \<Rightarrow>
    (case MetricsConfig_Check (Metrics cfg) of
       Some err \<Rightarrow> (Returns (Some (Metrics_error err)), cfg, w)
     | None \<Rightarrow>
    (case oppprof_Check (Pprof cfg) of
       Some err \<Rightarrow> (Returns (Some (Pprof_error err)), cfg, w)
     | None \<Rightarrow>
    (case (case P2P cfg of None \<Rightarrow> None | Some p \<Rightarrow> SetupP2P_Check p) of
       Some err \<Rightarrow> (Returns (Some (P2P_error err)), cfg, w)
     | None \<Rightarrow>
     if \<not> (RollupHalt cfg = [] \<or> RollupHalt cfg = ''major''
           \<or> RollupHalt cfg = ''minor'' \<or> RollupHalt cfg = ''patch'')
     then (Returns (Some (RollupHalt_error (RollupHalt cfg))), cfg, w)
     else
    (case Check_Conductor cfg w of
       (Panic, w1) \<Rightarrow> (Panic, cfg, w1)
     | (Returns (Some e), w1) \<Rightarrow> (Returns (Some e), cfg, w1)
     | (Returns None, w1) \<Rightarrow> Check_AltDA_DAC cfg w1)))))))))))"

subsection \<open>P2PEnabled\<close>

definition P2PEnabled :: "Config \<Rightarrow> bool" where
  "P2PEnabled cfg = (case P2P cfg of None \<Rightarrow> False | Some p \<Rightarrow> \<not> SetupP2P_Disabled p)"

subsection \<open>The gate as the spec lists it\<close>

text \<open>
  The spec describes validation as twelve checks in a fixed order, the first failing
  one ending validation with its error. Each check is written here on its own, in terms
  of the fields of the configuration and of the answer of the store, and none of them
  refers to \<open>Check\<close> or to one of its blocks; a check stops the gate when its result
  is anything but \<open>Returns None\<close>. The tenth check takes the answer of the store to the
  next read of the world as it is on entry, no earlier check changing the world.
\<close>

definition check_primary :: "Config \<Rightarrow> error option outcome" where
  "check_primary cfg =
     (case L1 cfg of
        None \<Rightarrow> Panic
      | Some l1 \<Rightarrow>
         Returns (case L1EndpointSetup_Check l1 of
                    None \<Rightarrow> None
                  | Some err \<Rightarrow> Some (L1_error err)))"

definition check_secondary :: "Config \<Rightarrow> error option outcome" where
  "check_secondary cfg =
     (case L2 cfg of
        None \<Rightarrow> Panic
      | Some l2 \<Rightarrow>
         Returns (case L2EndpointSetup_Check l2 of
                    None \<Rightarrow> None
                  | Some err \<Rightarrow> Some (L2_error err)))"

definition check_consensus_data :: "Config \<Rightarrow> error option outcome" where
  "check_consensus_data cfg =
     Returns (case EcotoneTime (Rollup cfg) of
                None \<Rightarrow> None
              | Some t \<Rightarrow>
                 (case Beacon cfg of
                    None \<Rightarrow> Some (Beacon_missing_error t)
                  | Some b \<Rightarrow>
                     (case L1BeaconEndpointSetup_Check b of
                        None \<Rightarrow> None
                      | Some err \<Rightarrow> Some (Beacon_error err))))"

definition check_supervisor :: "Config \<Rightarrow> error option outcome" where
  "check_supervisor cfg =
     Returns (case InteropTime (Rollup cfg) of
                None \<Rightarrow> None
              | Some t \<Rightarrow>
                 (case Supervisor cfg of
                    None \<Rightarrow> Some (Supervisor_missing_error t)
                  | Some s \<Rightarrow>
                     (case SupervisorEndpointSetup_Check s of
                        None \<Rightarrow> None
                      | Some err \<Rightarrow> Some (Supervisor_error err))))"

definition check_schedule :: "Config \<Rightarrow> error option outcome" where
  "check_schedule cfg =
     Returns (case rollup_Check (Rollup cfg) of
                None \<Rightarrow> None
              | Some err \<Rightarrow> Some (Rollup_error err))"

definition check_metrics :: "Config \<Rightarrow> error option outcome" where
  "check_metrics cfg =
     Returns (case MetricsConfig_Check (Metrics cfg) of
                None \<Rightarrow> None
              | Some err \<Rightarrow> Some (Metrics_error err))"

definition check_profiling :: "Config \<Rightarrow> error option outcome" where
  "check_profiling cfg =
     Returns (case oppprof_Check (Pprof cfg) of
                None \<Rightarrow> None
              | Some err \<Rightarrow> Some (Pprof_error err))"

definition check_peer_network :: "Config \<Rightarrow> error option outcome" where
  "check_peer_network cfg =
     Returns (case (case P2P cfg of None \<Rightarrow> None | Some p \<Rightarrow> SetupP2P_Check p) of
                None \<Rightarrow> None
              | Some err \<Rightarrow> Some (P2P_error err))"

definition check_halt_severity :: "Config \<Rightarrow> error option outcome" where
  "check_halt_severity cfg =
     Returns (if \<not> (RollupHalt cfg = [] \<or> RollupHalt cfg = ''major''
                    \<or> RollupHalt cfg = ''minor'' \<or> RollupHalt cfg = ''patch'')
              then Some (RollupHalt_error (RollupHalt cfg))
              else None)"

definition check_coordination :: "Config \<Rightarrow> World \<Rightarrow> error option outcome" where
  "check_coordination cfg w =
     (if \<not> ConductorEnabled cfg then Returns None
      else case ConfigPersistence cfg of
        None \<Rightarrow> Panic
      | Some p \<Rightarrow>
         if fst (SequencerState p (reads w)) \<noteq> StateUnset then Returns (Some Persistence_error)
         else if \<not> SequencerEnabled (Driver cfg) then Returns (Some Sequencer_error)
         else Returns None)"

definition check_alt_da :: "Config \<Rightarrow> error option outcome" where
  "check_alt_da cfg =
     Returns (case altda_Check (AltDA cfg) of
                None \<Rightarrow> None
              | Some err \<Rightarrow> Some (AltDA_error err))"

definition check_committee :: "Config \<Rightarrow> error option outcome" where
  "check_committee cfg =
     Returns (if SequencerEnabled (Driver cfg) \<and> IsL2BlobTimeSet (Rollup cfg) \<and> DACConfig cfg = None
              then Some DAC_missing_error
              else if (\<not> SequencerEnabled (Driver cfg) \<or> \<not> IsL2BlobTimeSet (Rollup cfg))
                      \<and> DACConfig cfg \<noteq> None
              then Some DAC_unexpected_error
              else None)"

definition gate_checks :: "Config \<Rightarrow> World \<Rightarrow> error option outcome list" where
  "gate_checks cfg w =
     [check_primary cfg, check_secondary cfg, check_consensus_data cfg, check_supervisor cfg,
      check_schedule cfg, check_metrics cfg, check_profiling cfg, check_peer_network cfg,
      check_halt_severity cfg, check_coordination cfg w, check_alt_da cfg, check_committee cfg]"

text \<open>The result of the first check that stops, and how many checks passed before it.\<close>

fun first_stop :: "error option outcome list \<Rightarrow> error option outcome" where
  "first_stop [] = Returns None"
| "first_stop (r # rs) = (if r = Returns None then first_stop rs else r)"

fun passed :: "error option outcome list \<Rightarrow> nat" where
  "passed [] = 0"
| "passed (r # rs) = (if r = Returns None then Suc (passed rs) else 0)"

subsection \<open>Failing at the consensus-data check\<close>

text \<open>
  The two errors of lines 166 and 169: the Ecotone upgrade is scheduled and the Beacon
  endpoint is missing, or its own check failed.
\<close>

fun Beacon_failure :: "error \<Rightarrow> bool" where
  "Beacon_failure (Errorf f [D t]) = (Errorf f [D t] = Beacon_missing_error t)"
| "Beacon_failure (Errorf f [W err]) = (Errorf f [W err] = Beacon_error err)"
| "Beacon_failure _ = False"

subsection \<open>Concrete configurations\<close>

text \<open>
  A store with no persisted state, a store whose read fails, a store whose last state is
  stopped, and a configuration of a plain verifier node that passes every check.
\<close>

definition unset_store :: ConfigPersistence where
  "unset_store = \<lparr>SequencerState = (\<lambda>n. (StateUnset, None))\<rparr>"

definition store_failure :: error where
  "store_failure = New ''read state file: permission denied''"

definition failing_store :: ConfigPersistence where
  "failing_store = \<lparr>SequencerState = (\<lambda>n. (StateUnset, Some store_failure))\<rparr>"

definition stopped_store :: ConfigPersistence where
  "stopped_store = \<lparr>SequencerState = (\<lambda>n. (StateStopped, None))\<rparr>"

definition world0 :: World where
  "world0 = \<lparr>reads = 0, logged = []\<rparr>"

definition verifier_cfg :: Config where
  "verifier_cfg =
     \<lparr>L1 = Some \<lparr>L1EndpointSetup_Check = None\<rparr>,
      L2 = Some \<lparr>L2EndpointSetup_Check = None\<rparr>,
      Beacon = None,
      Supervisor = None,
      Driver = \<lparr>SequencerEnabled = False, SequencerStopped = False\<rparr>,
      Rollup = \<lparr>EcotoneTime = None, InteropTime = None, rollup_Check = None,
                IsL2BlobTimeSet = False\<rparr>,
      RPC = \<lparr>RPC_ListenAddr = ''127.0.0.1'', RPC_ListenPort = 9545, RPC_EnableAdmin = False\<rparr>,
      P2P = None,
      Metrics = \<lparr>Metrics_Enabled = False, Metrics_ListenAddr = ''0.0.0.0'',
                 Metrics_ListenPort = 7300\<rparr>,
      Pprof = \<lparr>oppprof_Check = None\<rparr>,
      L1EpochPollInterval = 0,
      ConfigPersistence = Some unset_store,
      SafeDBPath = [],
      RuntimeConfigReloadInterval = 0,
      RollupHalt = [],
      ConductorEnabled = False,
      ConductorRpcTimeout = 0,
      AltDA = \<lparr>altda_Enabled = False, altda_Check = None\<rparr>,
      DACConfig = None\<rparr>"

text \<open>A sequencer with the L2 blob time set.\<close>

definition sequencer_cfg :: Config where
  "sequencer_cfg =
     verifier_cfg\<lparr>Driver := \<lparr>SequencerEnabled = True, SequencerStopped = False\<rparr>,
                  Rollup := \<lparr>EcotoneTime = None, InteropTime = None, rollup_Check = None,
                            IsL2BlobTimeSet = True\<rparr>\<rparr>"

text \<open>
  A sequencer with a committee configured (\<open>dac_cfg\<close>), the same under the conductor
  (\<open>conductor_cfg\<close>), with a store whose read fails (\<open>swallow_cfg\<close>) and with a store
  holding the state stopped (\<open>stopped_cfg\<close>); verifiers whose L1 or L2 endpoint does not
  answer (\<open>l1_bad_cfg\<close>, \<open>l2_bad_cfg\<close>), one with a bad metrics port besides
  (\<open>broken_cfg\<close>), one with the Ecotone upgrade scheduled and no Beacon endpoint
  (\<open>ecotone_cfg\<close>), one with the Interop upgrade scheduled, no supervisor endpoint
  and a bad metrics port (\<open>interop_cfg\<close>); a sequencer whose committee has no URL (\<open>empty_urls_cfg\<close>) and one
  whose committee comes from the command line (\<open>cli_cfg\<close>).
\<close>

definition conductor_cfg :: Config where
  "conductor_cfg =
     sequencer_cfg\<lparr>ConductorEnabled := True,
                   DACConfig := Some \<lparr>URLS = [''http://dac-1:8888'']\<rparr>\<rparr>"

definition swallow_cfg :: Config where
  "swallow_cfg = conductor_cfg\<lparr>ConfigPersistence := Some failing_store\<rparr>"

definition dial_failure :: error where
  "dial_failure = New ''dial tcp: connection refused''"

definition l1_bad_cfg :: Config where
  "l1_bad_cfg = verifier_cfg\<lparr>L1 := Some \<lparr>L1EndpointSetup_Check = Some dial_failure\<rparr>\<rparr>"

definition l2_bad_cfg :: Config where
  "l2_bad_cfg = verifier_cfg\<lparr>L2 := Some \<lparr>L2EndpointSetup_Check = Some dial_failure\<rparr>\<rparr>"

definition empty_urls_cfg :: Config where
  "empty_urls_cfg = sequencer_cfg\<lparr>DACConfig := Some \<lparr>URLS = []\<rparr>\<rparr>"

definition dac_cfg :: Config where
  "dac_cfg = sequencer_cfg\<lparr>DACConfig := Some \<lparr>URLS = [''http://dac-1:8888'']\<rparr>\<rparr>"

definition broken_cfg :: Config where
  "broken_cfg =
     verifier_cfg\<lparr>L1 := Some \<lparr>L1EndpointSetup_Check = Some dial_failure\<rparr>,
                  Metrics := \<lparr>Metrics_Enabled = True, Metrics_ListenAddr = ''0.0.0.0'',
                             Metrics_ListenPort = 70000\<rparr>\<rparr>"

definition ecotone_cfg :: Config where
  "ecotone_cfg =
     verifier_cfg\<lparr>Rollup := \<lparr>EcotoneTime = Some 1710374401, InteropTime = None,
                            rollup_Check = None, IsL2BlobTimeSet = False\<rparr>\<rparr>"

definition interop_cfg :: Config where
  "interop_cfg =
     verifier_cfg\<lparr>Rollup := \<lparr>EcotoneTime = None, InteropTime = Some 1735689600,
                            rollup_Check = None, IsL2BlobTimeSet = False\<rparr>,
                  Metrics := \<lparr>Metrics_Enabled = True, Metrics_ListenAddr = ''0.0.0.0'',
                             Metrics_ListenPort = 70000\<rparr>\<rparr>"

definition stopped_cfg :: Config where
  "stopped_cfg = conductor_cfg\<lparr>ConfigPersistence := Some stopped_store\<rparr>"

definition cli_cfg :: Config where
  "cli_cfg = sequencer_cfg\<lparr>DACConfig := ReadDACConfigFromCLI ''http://a,http://b''\<rparr>"

section \<open>The gate, check by check\<close>

subsection \<open>The conductor block\<close>

lemma Check_Conductor_logged: "logged (snd (Check_Conductor cfg w)) = logged w"
  by (simp add: Check_Conductor_def read_SequencerState_def Let_def split: option.split)

lemma Check_Conductor_reads:
  "reads (snd (Check_Conductor cfg w)) =
     (if ConductorEnabled cfg \<and> ConfigPersistence cfg \<noteq> None then Suc (reads w) else reads w)"
  by (simp add: Check_Conductor_def read_SequencerState_def Let_def split: option.split)

lemma Check_Conductor_result:
  "fst (Check_Conductor cfg w) =
     (if ConductorEnabled cfg then
        (case ConfigPersistence cfg of
           None \<Rightarrow> Panic
         | Some p \<Rightarrow>
            if fst (SequencerState p (reads w)) \<noteq> StateUnset then Returns (Some Persistence_error)
            else if \<not> SequencerEnabled (Driver cfg) then Returns (Some Sequencer_error)
            else Returns None)
      else Returns None)"
  by (simp add: Check_Conductor_def read_SequencerState_def Let_def split: option.split)

subsection \<open>The checks of the spec and the blocks of Check\<close>

text \<open>
  The third, fourth and tenth check of the spec are what the three blocks of \<open>Check\<close>
  compute.
\<close>

lemma check_consensus_data_eq: "check_consensus_data cfg = Returns (Check_Beacon cfg)"
  by (simp add: check_consensus_data_def Check_Beacon_def split: option.split)

lemma check_supervisor_eq: "check_supervisor cfg = Returns (Check_Supervisor cfg)"
  by (simp add: check_supervisor_def Check_Supervisor_def split: option.split)

lemma check_coordination_eq: "check_coordination cfg w = fst (Check_Conductor cfg w)"
  by (simp add: check_coordination_def Check_Conductor_result split: option.split)

text \<open>
  \<open>Check\<close> unfolded along the twelve checks: it returns the result of the first check
  that does not pass, with the configuration as it was; the world changes only by the
  read of the store in the tenth check and by the warning after the eleventh.
\<close>

lemma Check_unfold:
  "Check cfg w =
    (if check_primary cfg \<noteq> Returns None then (check_primary cfg, cfg, w)
     else if check_secondary cfg \<noteq> Returns None then (check_secondary cfg, cfg, w)
     else if check_consensus_data cfg \<noteq> Returns None then (check_consensus_data cfg, cfg, w)
     else if check_supervisor cfg \<noteq> Returns None then (check_supervisor cfg, cfg, w)
     else if check_schedule cfg \<noteq> Returns None then (check_schedule cfg, cfg, w)
     else if check_metrics cfg \<noteq> Returns None then (check_metrics cfg, cfg, w)
     else if check_profiling cfg \<noteq> Returns None then (check_profiling cfg, cfg, w)
     else if check_peer_network cfg \<noteq> Returns None then (check_peer_network cfg, cfg, w)
     else if check_halt_severity cfg \<noteq> Returns None then (check_halt_severity cfg, cfg, w)
     else if check_coordination cfg w \<noteq> Returns None
       then (check_coordination cfg w, cfg, snd (Check_Conductor cfg w))
     else if check_alt_da cfg \<noteq> Returns None
       then (check_alt_da cfg, cfg, snd (Check_Conductor cfg w))
     else (check_committee cfg, cfg,
           if altda_Enabled (AltDA cfg) then log_Warn AltDA_warning [] (snd (Check_Conductor cfg w))
           else snd (Check_Conductor cfg w)))"
  unfolding Check_def check_primary_def check_secondary_def check_consensus_data_eq
    check_supervisor_eq check_schedule_def check_metrics_def check_profiling_def
    check_peer_network_def check_halt_severity_def check_coordination_eq
  apply (cases "L1 cfg"; simp split del: if_split)
  subgoal for l1
  apply (cases "L1EndpointSetup_Check l1"; simp split del: if_split)
  apply (cases "L2 cfg"; simp split del: if_split)
  subgoal for l2
  apply (cases "L2EndpointSetup_Check l2"; simp split del: if_split)
  apply (cases "Check_Beacon cfg"; simp split del: if_split)
  apply (cases "Check_Supervisor cfg"; simp split del: if_split)
  apply (cases "rollup_Check (Rollup cfg)"; simp split del: if_split)
  apply (cases "MetricsConfig_Check (Metrics cfg)"; simp split del: if_split)
  apply (cases "oppprof_Check (Pprof cfg)"; simp split del: if_split)
  apply (cases "case P2P cfg of None \<Rightarrow> None | Some p \<Rightarrow> SetupP2P_Check p")
  subgoal
    apply (simp split del: if_split)
    apply (cases "Check_Conductor cfg w")
    subgoal for r w1
      apply (cases r)
      subgoal by simp
      subgoal for e
        apply (cases e)
        subgoal
          by (cases "altda_Check (AltDA cfg)")
             (auto simp: Check_AltDA_DAC_def check_alt_da_def check_committee_def Let_def)
        subgoal by simp
        done
      done
    done
  subgoal for e
    apply (simp split del: if_split)
    done
  done
  done
  done

lemmas check_defs = check_primary_def check_secondary_def check_consensus_data_eq
    check_supervisor_eq check_schedule_def check_metrics_def check_profiling_def
    check_peer_network_def check_halt_severity_def check_coordination_eq check_alt_da_def
    check_committee_def

lemma Check_first_stop: "fst (Check cfg w) = first_stop (gate_checks cfg w)"
  by (simp add: Check_unfold gate_checks_def)

lemma passed_ge_9:
  "9 \<le> passed (gate_checks cfg w) \<longleftrightarrow>
     check_primary cfg = Returns None \<and> check_secondary cfg = Returns None
     \<and> check_consensus_data cfg = Returns None \<and> check_supervisor cfg = Returns None
     \<and> check_schedule cfg = Returns None \<and> check_metrics cfg = Returns None
     \<and> check_profiling cfg = Returns None \<and> check_peer_network cfg = Returns None
     \<and> check_halt_severity cfg = Returns None"
  by (simp add: gate_checks_def)

lemma passed_ge_11:
  "11 \<le> passed (gate_checks cfg w) \<longleftrightarrow>
     9 \<le> passed (gate_checks cfg w)
     \<and> check_coordination cfg w = Returns None \<and> check_alt_da cfg = Returns None"
  by (simp add: gate_checks_def)

lemma first_stop_in_set: "first_stop rs \<noteq> Returns None \<Longrightarrow> first_stop rs \<in> set rs"
  by (induction rs) auto

subsection \<open>Errors of the consensus-data check and of the other checks\<close>

lemma Beacon_failure_simps:
  "Beacon_failure (Beacon_missing_error t)" "Beacon_failure (Beacon_error e)"
  "\<not> Beacon_failure (L1_error e)" "\<not> Beacon_failure (L2_error e)"
  "\<not> Beacon_failure (Supervisor_missing_error t)" "\<not> Beacon_failure (Supervisor_error e)"
  "\<not> Beacon_failure (Rollup_error e)" "\<not> Beacon_failure (Metrics_error e)"
  "\<not> Beacon_failure (Pprof_error e)" "\<not> Beacon_failure (P2P_error e)"
  "\<not> Beacon_failure (RollupHalt_error h)" "\<not> Beacon_failure Persistence_error"
  "\<not> Beacon_failure Sequencer_error" "\<not> Beacon_failure (AltDA_error e)"
  "\<not> Beacon_failure DAC_missing_error" "\<not> Beacon_failure DAC_unexpected_error"
  by (simp_all add: Beacon_missing_error_def Beacon_error_def L1_error_def L2_error_def
      Supervisor_missing_error_def Supervisor_error_def Rollup_error_def Metrics_error_def
      Pprof_error_def P2P_error_def RollupHalt_error_def Persistence_error_def
      Sequencer_error_def AltDA_error_def DAC_missing_error_def DAC_unexpected_error_def)

lemma checks_not_Beacon:
  "check_primary cfg = Returns (Some e) \<Longrightarrow> \<not> Beacon_failure e"
  "check_secondary cfg = Returns (Some e) \<Longrightarrow> \<not> Beacon_failure e"
  "check_supervisor cfg = Returns (Some e) \<Longrightarrow> \<not> Beacon_failure e"
  "check_schedule cfg = Returns (Some e) \<Longrightarrow> \<not> Beacon_failure e"
  "check_metrics cfg = Returns (Some e) \<Longrightarrow> \<not> Beacon_failure e"
  "check_profiling cfg = Returns (Some e) \<Longrightarrow> \<not> Beacon_failure e"
  "check_peer_network cfg = Returns (Some e) \<Longrightarrow> \<not> Beacon_failure e"
  "check_halt_severity cfg = Returns (Some e) \<Longrightarrow> \<not> Beacon_failure e"
  "check_coordination cfg w = Returns (Some e) \<Longrightarrow> \<not> Beacon_failure e"
  "check_alt_da cfg = Returns (Some e) \<Longrightarrow> \<not> Beacon_failure e"
  "check_committee cfg = Returns (Some e) \<Longrightarrow> \<not> Beacon_failure e"
proof -
  show "check_primary cfg = Returns (Some e) \<Longrightarrow> \<not> Beacon_failure e"
    by (auto simp: check_primary_def Beacon_failure_simps split: option.splits)
  show "check_secondary cfg = Returns (Some e) \<Longrightarrow> \<not> Beacon_failure e"
    by (auto simp: check_secondary_def Beacon_failure_simps split: option.splits)
  show "check_supervisor cfg = Returns (Some e) \<Longrightarrow> \<not> Beacon_failure e"
    by (auto simp: check_supervisor_eq Check_Supervisor_def Beacon_failure_simps split: option.splits)
  show "check_schedule cfg = Returns (Some e) \<Longrightarrow> \<not> Beacon_failure e"
    by (auto simp: check_schedule_def Beacon_failure_simps split: option.splits)
  show "check_metrics cfg = Returns (Some e) \<Longrightarrow> \<not> Beacon_failure e"
    by (auto simp: check_metrics_def Beacon_failure_simps split: option.splits)
  show "check_profiling cfg = Returns (Some e) \<Longrightarrow> \<not> Beacon_failure e"
    by (auto simp: check_profiling_def Beacon_failure_simps split: option.splits)
  show "check_peer_network cfg = Returns (Some e) \<Longrightarrow> \<not> Beacon_failure e"
    by (auto simp: check_peer_network_def Beacon_failure_simps split: option.splits)
  show "check_halt_severity cfg = Returns (Some e) \<Longrightarrow> \<not> Beacon_failure e"
    by (auto simp: check_halt_severity_def Beacon_failure_simps split: if_splits)
  show "check_coordination cfg w = Returns (Some e) \<Longrightarrow> \<not> Beacon_failure e"
    by (auto simp: check_coordination_eq Check_Conductor_result Beacon_failure_simps
        split: option.splits if_splits)
  show "check_alt_da cfg = Returns (Some e) \<Longrightarrow> \<not> Beacon_failure e"
    by (auto simp: check_alt_da_def Beacon_failure_simps split: option.splits)
  show "check_committee cfg = Returns (Some e) \<Longrightarrow> \<not> Beacon_failure e"
    by (auto simp: check_committee_def Beacon_failure_simps split: if_splits)
qed

lemma gate_result_not_Beacon:
  assumes "Returns (Some e) \<in> set (gate_checks cfg w)"
    and "check_consensus_data cfg = Returns None"
  shows "\<not> Beacon_failure e"
proof -
  from assms(1) consider
      "check_primary cfg = Returns (Some e)" | "check_secondary cfg = Returns (Some e)"
    | "check_consensus_data cfg = Returns (Some e)" | "check_supervisor cfg = Returns (Some e)"
    | "check_schedule cfg = Returns (Some e)" | "check_metrics cfg = Returns (Some e)"
    | "check_profiling cfg = Returns (Some e)" | "check_peer_network cfg = Returns (Some e)"
    | "check_halt_severity cfg = Returns (Some e)" | "check_coordination cfg w = Returns (Some e)"
    | "check_alt_da cfg = Returns (Some e)" | "check_committee cfg = Returns (Some e)"
    unfolding gate_checks_def by (simp only: set_simps insert_iff empty_iff) metis
  then show ?thesis
    using assms(2) by cases (simp_all add: checks_not_Beacon)
qed

lemma Check_not_Beacon:
  assumes "check_consensus_data cfg = Returns None" and "fst (Check cfg w) = Returns (Some e)"
  shows "\<not> Beacon_failure e"
proof -
  have "first_stop (gate_checks cfg w) \<in> set (gate_checks cfg w)"
    using assms(2) by (intro first_stop_in_set) (simp add: Check_first_stop)
  then show ?thesis
    using assms gate_result_not_Beacon [of e cfg w]
    by (simp add: Check_first_stop)
qed

lemma checks_Beacon_update:
  "check_primary (cfg\<lparr>Beacon := b\<rparr>) = check_primary cfg"
  "check_secondary (cfg\<lparr>Beacon := b\<rparr>) = check_secondary cfg"
  "check_supervisor (cfg\<lparr>Beacon := b\<rparr>) = check_supervisor cfg"
  "check_schedule (cfg\<lparr>Beacon := b\<rparr>) = check_schedule cfg"
  "check_metrics (cfg\<lparr>Beacon := b\<rparr>) = check_metrics cfg"
  "check_profiling (cfg\<lparr>Beacon := b\<rparr>) = check_profiling cfg"
  "check_peer_network (cfg\<lparr>Beacon := b\<rparr>) = check_peer_network cfg"
  "check_halt_severity (cfg\<lparr>Beacon := b\<rparr>) = check_halt_severity cfg"
  "check_coordination (cfg\<lparr>Beacon := b\<rparr>) w = check_coordination cfg w"
  "check_alt_da (cfg\<lparr>Beacon := b\<rparr>) = check_alt_da cfg"
  "check_committee (cfg\<lparr>Beacon := b\<rparr>) = check_committee cfg"
  by (simp_all add: check_defs Check_Supervisor_def Check_Conductor_result cong: option.case_cong)

lemma gate_checks_Beacon_update:
  "EcotoneTime (Rollup cfg) = None \<Longrightarrow> gate_checks (cfg\<lparr>Beacon := b\<rparr>) w = gate_checks cfg w"
  by (simp add: gate_checks_def checks_Beacon_update)
     (simp add: check_consensus_data_eq Check_Beacon_def)

subsection \<open>Evaluating the concrete configurations\<close>

lemmas cfg_defs = verifier_cfg_def sequencer_cfg_def conductor_cfg_def swallow_cfg_def
  l1_bad_cfg_def l2_bad_cfg_def empty_urls_cfg_def world0_def unset_store_def failing_store_def
  stopped_store_def dac_cfg_def broken_cfg_def ecotone_cfg_def interop_cfg_def stopped_cfg_def
  cli_cfg_def

lemmas eval_defs = check_defs Check_Beacon_def Check_Supervisor_def Check_Conductor_result
  MetricsConfig_Check_def MaxUint16_def

lemma strings_Split_nonempty: "strings_Split s sep \<noteq> []"
  by (cases s) (simp_all split: list.split)

subsection \<open>The small operations\<close>

text \<open>
  \<open>MetricsConfig.Check\<close> accepts every port when metrics are disabled and the ports
  from 0 to 65535 when they are enabled; \<open>DACConfig.Client\<close> gives a client exactly for
  a present configuration with a URL; peer networking is enabled exactly when a setup is
  present that is not disabled.
\<close>

lemma MetricsConfig_Check_ports:
  "MetricsConfig_Check m =
     (if Metrics_Enabled m \<and> (Metrics_ListenPort m < 0 \<or> 65535 < Metrics_ListenPort m)
      then Some (New ''invalid metrics port'') else None)"
  by (simp add: MetricsConfig_Check_def MaxUint16_def)

lemma Client_None_iff:
  "Client dacConfig = None \<longleftrightarrow> (\<forall>d. dacConfig = Some d \<longrightarrow> URLS d = [])"
  by (cases dacConfig) (simp_all add: Client_def)

lemma Client_Some:
  "Client dacConfig = Some c \<longleftrightarrow> (\<exists>d. dacConfig = Some d \<and> URLS d \<noteq> [] \<and> c = client_New (URLS d))"
  by (cases dacConfig) (auto simp: Client_def)

lemma P2PEnabled_iff:
  "P2PEnabled cfg \<longleftrightarrow> (\<exists>p. P2P cfg = Some p \<and> \<not> SetupP2P_Disabled p)"
  by (cases "P2P cfg") (simp_all add: P2PEnabled_def)

lemma ReadDACConfigFromCLI_None_iff: "ReadDACConfigFromCLI urls = None \<longleftrightarrow> urls = []"
  by (simp add: ReadDACConfigFromCLI_def)

lemma strings_Split_no_separator:
  "sep \<notin> set s \<Longrightarrow> strings_Split s sep = [s]"
  by (induction s) auto

lemma strings_Split_append:
  "sep \<notin> set s \<Longrightarrow> strings_Split (s @ sep # t) sep = s # strings_Split t sep"
  by (induction s) auto

section \<open>The claims\<close>

subsection \<open>The committee biconditional\<close>

text \<open>
  Claim C1. When every check but the committee check passes, \<open>Check\<close> succeeds exactly
  when "the sequencer is enabled and the L2 blob time is set" and "a \<open>DACConfig\<close> is
  present" have the same truth value. With both conjuncts true and no \<open>DACConfig\<close> it
  returns the error of line 212; with a \<open>DACConfig\<close> and a conjunct false it returns the
  error of line 215.
\<close>

theorem Check_DAC_biconditional:
  assumes "check_primary cfg = Returns None" and "check_secondary cfg = Returns None"
    and "check_consensus_data cfg = Returns None" and "check_supervisor cfg = Returns None"
    and "check_schedule cfg = Returns None" and "check_metrics cfg = Returns None"
    and "check_profiling cfg = Returns None" and "check_peer_network cfg = Returns None"
    and "check_halt_severity cfg = Returns None" and "check_coordination cfg w = Returns None"
    and "check_alt_da cfg = Returns None"
  shows "(fst (Check cfg w) = Returns None \<longleftrightarrow>
            ((SequencerEnabled (Driver cfg) \<and> IsL2BlobTimeSet (Rollup cfg)) \<longleftrightarrow> DACConfig cfg \<noteq> None))
       \<and> (SequencerEnabled (Driver cfg) \<and> IsL2BlobTimeSet (Rollup cfg) \<and> DACConfig cfg = None
            \<longrightarrow> fst (Check cfg w) = Returns (Some DAC_missing_error))
       \<and> (DACConfig cfg \<noteq> None \<and> \<not> (SequencerEnabled (Driver cfg) \<and> IsL2BlobTimeSet (Rollup cfg))
            \<longrightarrow> fst (Check cfg w) = Returns (Some DAC_unexpected_error))"
proof -
  have "fst (Check cfg w) = check_committee cfg"
    using assms by (simp add: Check_unfold)
  then show ?thesis
    by (auto simp: check_committee_def)
qed

text \<open>
  The sequencer with the blob time set and one committee URL passes the eleven other
  checks, and \<open>Check\<close> succeeds on it.
\<close>

theorem Check_DAC_biconditional_witness:
  "list_all (\<lambda>r. r = Returns None) (butlast (gate_checks dac_cfg world0))
   \<and> fst (Check dac_cfg world0) = Returns None"
  using Check_DAC_biconditional [of dac_cfg world0]
  by (simp add: gate_checks_def eval_defs cfg_defs)

subsection \<open>Fail-fast order\<close>

text \<open>
  Claim C2. \<open>Check\<close> is fail-fast in the order of the spec: its result is the result of
  the first of the twelve checks that does not pass, each check being stated on the
  fields of the configuration. No later check leaves a trace: when the gate stops before
  the tenth check the world is as it was (the store is not read, nothing is logged), and
  when it stops before the twelfth nothing is logged. When the gate reaches the tenth
  check the store is read once if the conductor is enabled and not at all otherwise, and
  when it reaches the twelfth the alt-DA warning is the one record logged, if alt-DA is
  enabled. In particular, when the L1 endpoint check and the metrics check both fail,
  \<open>Check\<close> returns the L1 endpoint check's error alone.
\<close>

theorem Check_fail_fast:
  "fst (Check cfg w) = first_stop (gate_checks cfg w)
   \<and> (passed (gate_checks cfg w) < 9 \<longrightarrow> snd (snd (Check cfg w)) = w)
   \<and> (passed (gate_checks cfg w) < 11 \<longrightarrow> logged (snd (snd (Check cfg w))) = logged w)
   \<and> (9 \<le> passed (gate_checks cfg w) \<longrightarrow>
        reads (snd (snd (Check cfg w))) =
          (if ConductorEnabled cfg \<and> ConfigPersistence cfg \<noteq> None then Suc (reads w)
           else reads w))
   \<and> (11 \<le> passed (gate_checks cfg w) \<longrightarrow>
        logged (snd (snd (Check cfg w))) =
          logged w @ (if altda_Enabled (AltDA cfg) then [LogRecord LvlWarn AltDA_warning []]
                      else []))
   \<and> (\<forall>l1 e e'. L1 cfg = Some l1 \<and> L1EndpointSetup_Check l1 = Some e
          \<and> MetricsConfig_Check (Metrics cfg) = Some e'
        \<longrightarrow> Check cfg w = (Returns (Some (L1_error e)), cfg, w))"
proof (intro conjI)
  show "fst (Check cfg w) = first_stop (gate_checks cfg w)"
    by (simp add: Check_unfold gate_checks_def)
  show "passed (gate_checks cfg w) < 9 \<longrightarrow> snd (snd (Check cfg w)) = w"
    by (simp add: Check_unfold gate_checks_def)
  show "passed (gate_checks cfg w) < 11 \<longrightarrow> logged (snd (snd (Check cfg w))) = logged w"
    by (simp add: Check_unfold gate_checks_def Check_Conductor_logged)
  show "9 \<le> passed (gate_checks cfg w) \<longrightarrow>
        reads (snd (snd (Check cfg w))) =
          (if ConductorEnabled cfg \<and> ConfigPersistence cfg \<noteq> None then Suc (reads w)
           else reads w)"
  proof
    assume "9 \<le> passed (gate_checks cfg w)"
    then have "reads (snd (snd (Check cfg w))) = reads (snd (Check_Conductor cfg w))"
      by (simp add: passed_ge_9 Check_unfold log_Warn_def)
    then show "reads (snd (snd (Check cfg w))) =
          (if ConductorEnabled cfg \<and> ConfigPersistence cfg \<noteq> None then Suc (reads w)
           else reads w)"
      by (simp only: Check_Conductor_reads)
  qed
  show "11 \<le> passed (gate_checks cfg w) \<longrightarrow>
        logged (snd (snd (Check cfg w))) =
          logged w @ (if altda_Enabled (AltDA cfg) then [LogRecord LvlWarn AltDA_warning []]
                      else [])"
    by (simp add: passed_ge_11 passed_ge_9 Check_unfold Check_Conductor_logged log_Warn_def)
  show "\<forall>l1 e e'. L1 cfg = Some l1 \<and> L1EndpointSetup_Check l1 = Some e
          \<and> MetricsConfig_Check (Metrics cfg) = Some e'
        \<longrightarrow> Check cfg w = (Returns (Some (L1_error e)), cfg, w)"
    by (simp add: Check_unfold check_primary_def)
qed

text \<open>
  A verifier whose L1 endpoint does not answer and whose metrics port is 70000: the
  metrics check would fail, no check passes before the stop, and \<open>Check\<close> returns the
  L1 endpoint error with the world untouched. A verifier with the Interop upgrade
  scheduled, no supervisor endpoint and the metrics port 70000: three checks pass, and
  \<open>Check\<close> returns the error of the missing supervisor endpoint, not that of the metrics
  port, with the world untouched.
\<close>

theorem Check_fail_fast_witness:
  "MetricsConfig_Check (Metrics broken_cfg) = Some (New ''invalid metrics port'')
   \<and> passed (gate_checks broken_cfg world0) = 0
   \<and> Check broken_cfg world0 = (Returns (Some (L1_error dial_failure)), broken_cfg, world0)
   \<and> MetricsConfig_Check (Metrics interop_cfg) = Some (New ''invalid metrics port'')
   \<and> passed (gate_checks interop_cfg world0) = 3
   \<and> fst (Check interop_cfg world0) = Returns (Some (Supervisor_missing_error 1735689600))
   \<and> snd (snd (Check interop_cfg world0)) = world0"
  using Check_fail_fast [of broken_cfg world0] Check_fail_fast [of interop_cfg world0]
  by (simp add: gate_checks_def eval_defs cfg_defs)

subsection \<open>The Ecotone gate on the Beacon endpoint\<close>

text \<open>
  Claim C3. When the L1 and L2 endpoint checks pass: with the Ecotone time set,
  \<open>Check\<close> returns one of the two errors of the consensus-data check exactly when the
  Beacon endpoint is nil or its own \<open>Check\<close> returns an error; with the Ecotone time
  unset, \<open>Check\<close> never returns such an error, and its result is the same whatever the
  Beacon endpoint is, nil included.
\<close>

theorem Check_Beacon_gating:
  assumes "check_primary cfg = Returns None" and "check_secondary cfg = Returns None"
  shows "(EcotoneTime (Rollup cfg) \<noteq> None \<longrightarrow>
            ((\<exists>e. fst (Check cfg w) = Returns (Some e) \<and> Beacon_failure e) \<longleftrightarrow>
             (case Beacon cfg of None \<Rightarrow> True | Some b \<Rightarrow> L1BeaconEndpointSetup_Check b \<noteq> None)))
       \<and> (EcotoneTime (Rollup cfg) = None \<longrightarrow>
            (\<forall>e. fst (Check cfg w) = Returns (Some e) \<longrightarrow> \<not> Beacon_failure e)
            \<and> (\<forall>b. fst (Check (cfg\<lparr>Beacon := b\<rparr>) w) = fst (Check cfg w)))"
proof (intro conjI impI)
  assume set: "EcotoneTime (Rollup cfg) \<noteq> None"
  show "(\<exists>e. fst (Check cfg w) = Returns (Some e) \<and> Beacon_failure e) \<longleftrightarrow>
        (case Beacon cfg of None \<Rightarrow> True | Some b \<Rightarrow> L1BeaconEndpointSetup_Check b \<noteq> None)"
  proof (cases "Check_Beacon cfg")
    case None
    then have "\<not> (case Beacon cfg of None \<Rightarrow> True | Some b \<Rightarrow> L1BeaconEndpointSetup_Check b \<noteq> None)"
      using set by (auto simp: Check_Beacon_def split: option.splits)
    moreover have "\<not> (\<exists>e. fst (Check cfg w) = Returns (Some e) \<and> Beacon_failure e)"
      using None Check_not_Beacon [of cfg w] by (auto simp: check_consensus_data_eq)
    ultimately show ?thesis by simp
  next
    case (Some e)
    then have "Beacon_failure e"
      by (auto simp: Check_Beacon_def Beacon_failure_simps split: option.splits)
    moreover have "fst (Check cfg w) = Returns (Some e)"
      using assms Some by (simp add: Check_unfold check_consensus_data_eq)
    moreover have "case Beacon cfg of None \<Rightarrow> True | Some b \<Rightarrow> L1BeaconEndpointSetup_Check b \<noteq> None"
      using Some by (auto simp: Check_Beacon_def split: option.splits)
    ultimately show ?thesis by auto
  qed
next
  assume unset: "EcotoneTime (Rollup cfg) = None"
  then have "check_consensus_data cfg = Returns None"
    by (simp add: check_consensus_data_eq Check_Beacon_def)
  then show "\<forall>e. fst (Check cfg w) = Returns (Some e) \<longrightarrow> \<not> Beacon_failure e"
    using Check_not_Beacon [of cfg w] by blast
  show "\<forall>b. fst (Check (cfg\<lparr>Beacon := b\<rparr>) w) = fst (Check cfg w)"
    using unset by (simp add: Check_first_stop gate_checks_Beacon_update)
qed

text \<open>
  A verifier with the Ecotone upgrade scheduled and no Beacon endpoint fails at the
  consensus-data check.
\<close>

theorem Check_Beacon_gating_witness:
  "check_primary ecotone_cfg = Returns None \<and> check_secondary ecotone_cfg = Returns None
   \<and> EcotoneTime (Rollup ecotone_cfg) \<noteq> None \<and> Beacon ecotone_cfg = None
   \<and> (\<exists>e. fst (Check ecotone_cfg world0) = Returns (Some e) \<and> Beacon_failure e)"
  using Check_Beacon_gating [of ecotone_cfg world0]
  by (simp add: eval_defs cfg_defs)

subsection \<open>The conductor and the persisted state\<close>

text \<open>
  Claim C4. When the nine checks before the conductor block pass, the conductor is
  enabled and the store answers \<open>state\<close>: \<open>Check\<close> fails with the error of line 199
  when \<open>state\<close> is not unset; it fails when the sequencer is not enabled (with the error
  of line 199 or of line 202); and with the state unset and the sequencer enabled the
  block passes, the result being that of the two checks left.
\<close>

theorem Check_Conductor_exclusive:
  assumes "check_primary cfg = Returns None" and "check_secondary cfg = Returns None"
    and "check_consensus_data cfg = Returns None" and "check_supervisor cfg = Returns None"
    and "check_schedule cfg = Returns None" and "check_metrics cfg = Returns None"
    and "check_profiling cfg = Returns None" and "check_peer_network cfg = Returns None"
    and "check_halt_severity cfg = Returns None"
    and "ConductorEnabled cfg" and "ConfigPersistence cfg = Some p"
    and "SequencerState p (reads w) = (state, err)"
  shows "(state \<noteq> StateUnset \<longrightarrow> fst (Check cfg w) = Returns (Some Persistence_error))
       \<and> (\<not> SequencerEnabled (Driver cfg) \<longrightarrow>
            fst (Check cfg w) = Returns (Some (if state \<noteq> StateUnset then Persistence_error
                                                else Sequencer_error)))
       \<and> (state = StateUnset \<and> SequencerEnabled (Driver cfg) \<longrightarrow>
            check_coordination cfg w = Returns None
            \<and> fst (Check cfg w) = first_stop [check_alt_da cfg, check_committee cfg])"
  using assms
  by (simp add: Check_unfold check_coordination_eq Check_Conductor_result)

text \<open>
  The sequencer under the conductor, with a store holding the state stopped, passes the
  first nine checks and fails with the error of line 199.
\<close>

theorem Check_Conductor_exclusive_witness:
  "list_all (\<lambda>r. r = Returns None) (take 9 (gate_checks stopped_cfg world0))
   \<and> ConductorEnabled stopped_cfg
   \<and> fst (Check stopped_cfg world0) = Returns (Some Persistence_error)"
  using Check_Conductor_exclusive [of stopped_cfg stopped_store world0 StateStopped None]
  by (simp add: gate_checks_def eval_defs cfg_defs)

subsection \<open>Errors of the store\<close>

text \<open>
  Claim C5 says that a failed read of the store is propagated on both paths. It is on the
  path of \<open>LoadPersisted\<close>; in \<open>Check\<close> (line 198) the error is assigned to the blank
  identifier. On the sequencer under the conductor with a store whose read fails,
  \<open>LoadPersisted\<close> returns the store's error and \<open>Check\<close> returns success.
\<close>

theorem Check_swallows_store_error:
  "ConductorEnabled swallow_cfg
   \<and> ConfigPersistence swallow_cfg = Some failing_store
   \<and> SequencerState failing_store (reads world0) = (StateUnset, Some store_failure)
   \<and> fst (Check swallow_cfg world0) = Returns None
   \<and> fst (LoadPersisted ''sequencer.stopped'' swallow_cfg world0) = Returns (Some store_failure)"
  by (simp add: Check_unfold check_defs Check_Beacon_def Check_Supervisor_def
      Check_Conductor_result MetricsConfig_Check_def LoadPersisted_def read_SequencerState_def
      cfg_defs)

subsection \<open>The name on an L1 endpoint failure\<close>

text \<open>
  Claim C6 says that a failure of the L1 endpoint check is reported under the L1
  endpoint's own name. Line 159 wraps it with the text of line 162,
  "l2 endpoint config error": a verifier whose L1 endpoint fails and a verifier whose L2
  endpoint fails with the same cause get the same error from \<open>Check\<close>.
\<close>

theorem Check_L1_error_named_l2:
  "fst (Check l1_bad_cfg world0) = Returns (Some (Errorf ''l2 endpoint config error: %w'' [W dial_failure]))
   \<and> fst (Check l2_bad_cfg world0) = fst (Check l1_bad_cfg world0)"
  by (simp add: Check_unfold check_defs L1_error_def L2_error_def cfg_defs)

subsection \<open>Reconciliation with the persisted state\<close>

text \<open>
  Claim C7. \<open>LoadPersisted\<close> returns success at once, changing nothing, when the
  sequencer is not enabled. When it is enabled and the store answers started or stopped,
  it returns success and sets \<open>Driver.SequencerStopped\<close> to "the state is stopped",
  whatever the field held, logging one warning when the value changes and nothing
  otherwise. When the store answers unset, it returns success and the configuration is
  as it was.
\<close>

theorem LoadPersisted_contract:
  "(\<not> SequencerEnabled (Driver cfg) \<longrightarrow> LoadPersisted n cfg w = (Returns None, cfg, w))
   \<and> (SequencerEnabled (Driver cfg) \<and> ConfigPersistence cfg = Some p
        \<and> SequencerState p (reads w) = (s, None) \<and> s \<noteq> StateUnset \<longrightarrow>
        fst (LoadPersisted n cfg w) = Returns None
        \<and> fst (snd (LoadPersisted n cfg w))
            = cfg\<lparr>Driver := (Driver cfg)\<lparr>SequencerStopped := (s = StateStopped)\<rparr>\<rparr>
        \<and> logged (snd (snd (LoadPersisted n cfg w)))
            = logged w @ (if (s = StateStopped) \<noteq> SequencerStopped (Driver cfg)
                          then [LogRecord LvlWarn (''Overriding '' @ n @ '' with persisted state'')
                                  [(''stopped'', s = StateStopped)]]
                          else []))
   \<and> (SequencerEnabled (Driver cfg) \<and> ConfigPersistence cfg = Some p
        \<and> SequencerState p (reads w) = (StateUnset, None) \<longrightarrow>
        fst (LoadPersisted n cfg w) = Returns None \<and> fst (snd (LoadPersisted n cfg w)) = cfg)"
  by (simp add: LoadPersisted_def read_SequencerState_def log_Warn_def log_Info_def Let_def)

text \<open>
  On the sequencer whose store holds the state stopped the flag becomes true; on the
  verifier nothing happens.
\<close>

theorem LoadPersisted_contract_witness:
  "SequencerEnabled (Driver stopped_cfg)
   \<and> fst (LoadPersisted ''sequencer.stopped'' stopped_cfg world0) = Returns None
   \<and> SequencerStopped (Driver (fst (snd (LoadPersisted ''sequencer.stopped'' stopped_cfg world0))))
   \<and> LoadPersisted ''sequencer.stopped'' verifier_cfg world0 = (Returns None, verifier_cfg, world0)"
  using LoadPersisted_contract [of stopped_cfg "''sequencer.stopped''" world0 stopped_store StateStopped]
    LoadPersisted_contract [of verifier_cfg "''sequencer.stopped''" world0]
  by (simp add: cfg_defs)

subsection \<open>Reconciliation twice\<close>

text \<open>
  Claim C8. When the store gives the same answer on two consecutive reads, a second
  \<open>LoadPersisted\<close> right after the first leaves \<open>Driver.SequencerStopped\<close> as the first
  call left it; indeed it leaves the whole configuration so and returns the same result.
\<close>

theorem LoadPersisted_idempotent:
  assumes "\<forall>p. ConfigPersistence cfg = Some p \<longrightarrow>
             SequencerState p (Suc (reads w)) = SequencerState p (reads w)"
  shows "(let (r1, cfg1, w1) = LoadPersisted n cfg w;
              (r2, cfg2, w2) = LoadPersisted n cfg1 w1
          in SequencerStopped (Driver cfg2) = SequencerStopped (Driver cfg1) \<and> cfg2 = cfg1 \<and> r2 = r1)"
proof (cases "SequencerEnabled (Driver cfg)")
  case False
  then show ?thesis by (simp add: LoadPersisted_def)
next
  case True
  show ?thesis
  proof (cases "ConfigPersistence cfg")
    case None
    with True show ?thesis by (simp add: LoadPersisted_def)
  next
    case (Some p)
    obtain s err where ans: "SequencerState p (reads w) = (s, err)"
      by (cases "SequencerState p (reads w)")
    with assms Some have ans': "SequencerState p (Suc (reads w)) = (s, err)"
      by simp
    show ?thesis
      using True Some ans ans'
      by (cases err; cases s)
         (simp_all add: LoadPersisted_def read_SequencerState_def log_Warn_def log_Info_def Let_def)
  qed
qed

text \<open>The sequencer whose store always holds the state stopped.\<close>

theorem LoadPersisted_idempotent_witness:
  "(let (r1, cfg1, w1) = LoadPersisted ''sequencer.stopped'' stopped_cfg world0;
        (r2, cfg2, w2) = LoadPersisted ''sequencer.stopped'' cfg1 w1
    in SequencerStopped (Driver cfg2) = SequencerStopped (Driver cfg1) \<and> cfg2 = cfg1 \<and> r2 = r1)"
  using LoadPersisted_idempotent [of stopped_cfg world0 "''sequencer.stopped''"]
  by (simp add: cfg_defs)

subsection \<open>The URLs of the committee\<close>

text \<open>
  Claim C9 says that a present \<open>DACConfig\<close> with no URL never passes \<open>Check\<close>.
  \<open>Check\<close> does not look at the URLs: a sequencer with the blob time set and a
  \<open>DACConfig\<close> without any URL passes.
\<close>

theorem Check_accepts_empty_URLS:
  "fst (Check empty_urls_cfg world0) = Returns None
   \<and> DACConfig empty_urls_cfg = Some \<lparr>URLS = []\<rparr>"
  by (simp add: Check_unfold check_defs Check_Beacon_def Check_Supervisor_def
      Check_Conductor_result MetricsConfig_Check_def cfg_defs)

text \<open>
  Claim C9, amended. After \<open>Check\<close> returns success, a present \<open>DACConfig\<close> means that
  the sequencer is enabled and the L2 blob time is set; and its list of URLs is not empty
  when the \<open>DACConfig\<close> is the one \<open>ReadDACConfigFromCLI\<close> built.
\<close>

theorem Check_DAC_from_CLI_nonempty:
  assumes "fst (Check cfg w) = Returns None" and "DACConfig cfg = Some d"
  shows "SequencerEnabled (Driver cfg) \<and> IsL2BlobTimeSet (Rollup cfg)
         \<and> (DACConfig cfg = ReadDACConfigFromCLI urls \<longrightarrow> URLS d \<noteq> [])"
proof -
  have "check_committee cfg = Returns None"
    using assms(1) by (simp add: Check_unfold split: if_split_asm)
  then have "SequencerEnabled (Driver cfg) \<and> IsL2BlobTimeSet (Rollup cfg)"
    using assms(2) by (auto simp: check_committee_def split: if_split_asm)
  moreover have "DACConfig cfg = ReadDACConfigFromCLI urls \<longrightarrow> URLS d \<noteq> []"
    using assms(2) by (auto simp: ReadDACConfigFromCLI_def strings_Split_nonempty split: if_split_asm)
  ultimately show ?thesis by simp
qed

text \<open>The sequencer whose committee is read from the flag value \<open>http://a,http://b\<close>.\<close>

theorem Check_DAC_from_CLI_nonempty_witness:
  "fst (Check cli_cfg world0) = Returns None
   \<and> DACConfig cli_cfg = Some \<lparr>URLS = [''http://a'', ''http://b'']\<rparr>
   \<and> URLS \<lparr>URLS = [''http://a'', ''http://b'']\<rparr> \<noteq> []"
  using Check_DAC_from_CLI_nonempty [of cli_cfg world0 "\<lparr>URLS = [''http://a'', ''http://b'']\<rparr>"
      "''http://a,http://b''"]
  by (simp add: Check_unfold eval_defs cfg_defs ReadDACConfigFromCLI_def)

subsection \<open>The configuration is only read\<close>

text \<open>
  Claim C10. \<open>Check\<close> does not change the configuration: whatever it returns (success,
  an error, or a panic), the configuration after the call is the configuration before it.
\<close>

theorem Check_frame: "fst (snd (Check cfg w)) = cfg"
  by (simp add: Check_unfold)

text \<open>The verifier on which \<open>Check\<close> fails at the first check.\<close>

theorem Check_frame_witness: "fst (snd (Check broken_cfg world0)) = broken_cfg"
  using Check_frame [of broken_cfg world0] by simp

end
